theory Spec2Isabelle
  imports Complex_Main "HOL-Library.Multiset"
begin

section \<open>Conventions of the embedding\<close>

text \<open>
  The Python sources compute on IEEE doubles. The embedding idealises a double as a
  \<^typ>\<open>real\<close>: every theorem below is a statement about the arithmetic the code
  writes down, not about rounding. A NaN read from a data frame (what \<open>pd.isna\<close>
  and \<open>pd.notna\<close> test) is \<open>None\<close> of \<^typ>\<open>real option\<close>. An exception is a
  value of \<open>py_error\<close> on the left of a sum.
\<close>

datatype py_error = ValueError | ZeroDivisionError | TypeError | ComplexResult | NanResult

section \<open>numpy primitives used by strategy.py\<close>

text \<open>
  \<open>np.percentile(a, q)\<close> with the default linear method: \<open>q\<close> outside
  \<open>[0, 100]\<close> raises ValueError; otherwise the sorted array is read at the virtual
  index \<open>q / 100 * (n - 1)\<close>, interpolating between the two neighbours. numpy
  answers nan for an empty array.
\<close>

definition np_percentile :: "real list \<Rightarrow> real \<Rightarrow> py_error + real" where
  "np_percentile a q =
     (if q < 0 \<or> 100 < q then Inl ValueError
      else if a = [] then Inl NanResult
      else
        let s = sort a;
            n = length s;
            vi = q / 100 * real (n - 1);
            lo = nat \<lfloor>vi\<rfloor>;
            hi = min (lo + 1) (n - 1);
            g = vi - real lo
        in Inr (s ! lo + g * (s ! hi - s ! lo)))"

text \<open>\<open>np.clip(x, lo, hi)\<close> is \<open>minimum(maximum(x, lo), hi)\<close>.\<close>

definition np_clip :: "real \<Rightarrow> real \<Rightarrow> real \<Rightarrow> real" where
  "np_clip x lo hi = min (max x lo) hi"

text \<open>
  \<open>np.interp(x, xp, fp)\<close> for increasing \<open>xp\<close>: the end values outside the range
  of \<open>xp\<close>, and on the segment \<open>xp[j] \<le> x < xp[j+1]\<close> the value
  \<open>slope * (x - xp[j]) + fp[j]\<close>.
\<close>

fun interp_segments :: "real \<Rightarrow> (real \<times> real) list \<Rightarrow> real" where
  "interp_segments x ((x0, y0) # (x1, y1) # rest) =
     (if x < x1 then (y1 - y0) / (x1 - x0) * (x - x0) + y0
      else interp_segments x ((x1, y1) # rest))"
| "interp_segments x [(x0, y0)] = y0"
| "interp_segments x [] = 0"

definition np_interp :: "real \<Rightarrow> real list \<Rightarrow> real list \<Rightarrow> real" where
  "np_interp x xp fp =
     (if x \<le> hd xp then hd fp
      else if last xp \<le> x then last fp
      else interp_segments x (zip xp fp))"

text \<open>
  \<open>b ** e\<close> on floats: a negative base with a fractional exponent leaves the reals
  (Python answers a complex number), and \<open>0.0 ** e\<close> with \<open>e < 0\<close> raises
  ZeroDivisionError.
\<close>

definition float_pow :: "real \<Rightarrow> real \<Rightarrow> py_error + real" where
  "float_pow b e =
     (if e = 0 then Inr 1
      else if 0 < b then Inr (b powr e)
      else if b = 0 then (if e < 0 then Inl ZeroDivisionError else Inr 0)
      else if of_int \<lfloor>e\<rfloor> = e
        then Inr (if even \<lfloor>e\<rfloor> then \<bar>b\<bar> powr e else - (\<bar>b\<bar> powr e))
      else Inl ComplexResult)"

section \<open>strategy.py: NonlinearTwoStepInvestmentStrategy\<close>

text \<open>
  The fields of \<open>self\<close> that the modelled methods read. \<open>etf_data\<close> is the dict
  from ETF name to its data frame, in insertion order; of a data frame only the
  valuation column is read, so a frame is the list of that column's values in row order.
\<close>

record strategy =
  total_capital :: real
  nonlinear_type :: string
  aggressiveness :: real
  lambda_decay :: real
  winsorize_pct :: real
  etf_data :: "(string \<times> real list) list"

subsection \<open>winsorize\<close>

text \<open>The two clip bounds that \<open>winsorize\<close> computes from the array it is given.\<close>

definition clip_bounds :: "real list \<Rightarrow> real \<Rightarrow> py_error + (real \<times> real)" where
  "clip_bounds data pct =
     (case np_percentile data (pct * 100) of
        Inl e \<Rightarrow> Inl e
      | Inr lower_bound \<Rightarrow>
          (case np_percentile data ((1 - pct) * 100) of
             Inl e \<Rightarrow> Inl e
           | Inr upper_bound \<Rightarrow> Inr (lower_bound, upper_bound)))"

definition winsorize :: "real list \<Rightarrow> real \<Rightarrow> py_error + real list" where
  "winsorize data pct =
     (if length data = 0 then Inr data
      else
        (case clip_bounds data pct of
           Inl e \<Rightarrow> Inl e
         | Inr (lower_bound, upper_bound) \<Rightarrow>
             Inr (map (\<lambda>x. np_clip x lower_bound upper_bound) data)))"

subsection \<open>calculate_weighted_percentile\<close>

text \<open>
  The method returns the bare float \<open>0.0\<close> for an empty frame and the tuple
  \<open>(weighted_percentile, current_value)\<close> otherwise; the two shapes are the two
  constructors of \<open>wp_result\<close>.
\<close>

datatype wp_result = Scalar real | Tuple real real

text \<open>
  Line 162: the current value is put through \<open>winsorize\<close> as an array of its own,
  \<open>self.winsorize(np.array([current_value]), self.winsorize_pct)[0]\<close>.
\<close>

definition winsorized_current_value :: "real \<Rightarrow> real \<Rightarrow> py_error + real" where
  "winsorized_current_value current_value pct =
     (case winsorize [current_value] pct of
        Inl e \<Rightarrow> Inl e
      | Inr w \<Rightarrow> Inr (w ! 0))"

text \<open>The loop over \<open>range(T)\<close>, lines 169 to 176, builds two lists index by index.\<close>

definition loop_weights :: "real \<Rightarrow> nat \<Rightarrow> real list" where
  "loop_weights lam T = map (\<lambda>t. lam ^ (T - t)) [0..<T]"

definition loop_indicators :: "real list \<Rightarrow> real \<Rightarrow> real list" where
  "loop_indicators winsorized_values winsorized_current =
     map (\<lambda>t. if winsorized_values ! t < winsorized_current then 1 else 0)
       [0..<length winsorized_values]"

definition weighted_ratio :: "real list \<Rightarrow> real list \<Rightarrow> real" where
  "weighted_ratio weights indicators =
     (let weighted_sum = sum_list (map (\<lambda>(w, i). w * i) (zip weights indicators));
          total_weight = sum_list weights
      in if 0 < total_weight then weighted_sum / total_weight * 100 else 50)"

definition calculate_weighted_percentile :: "strategy \<Rightarrow> real list \<Rightarrow> py_error + wp_result" where
  "calculate_weighted_percentile self data =
     (if length data = 0 then Inr (Scalar 0)
      else
        let current_value = last data in
        (case winsorize data (winsorize_pct self) of
           Inl e \<Rightarrow> Inl e
         | Inr winsorized_values \<Rightarrow>
             (case winsorized_current_value current_value (winsorize_pct self) of
                Inl e \<Rightarrow> Inl e
              | Inr winsorized_current \<Rightarrow>
                  let T = length data;
                      weights = loop_weights (lambda_decay self) T;
                      indicators = loop_indicators winsorized_values winsorized_current
                  in Inr (Tuple (weighted_ratio weights indicators) current_value))))"

subsection \<open>nonlinear_position_sizing\<close>

definition points_x :: "real list" where
  "points_x = [0, 0.2, 0.5, 0.8, 1.0]"

definition points_y :: "real list" where
  "points_y = [1.0, 0.9, 0.5, 0.2, 0.0]"

text \<open>
  The branch on \<open>self.nonlinear_type\<close> computes \<open>position\<close>; the last statement
  clips it to \<open>[0, 1]\<close>. The power branch divides by \<open>self.aggressiveness\<close>.
\<close>

definition position_curve :: "strategy \<Rightarrow> real \<Rightarrow> py_error + real" where
  "position_curve self x =
     (if nonlinear_type self = ''linear'' then Inr (1 - x)
      else if nonlinear_type self = ''sigmoid'' then
        (let k = 5 * aggressiveness self in Inr (1 / (1 + exp (k * (x - 0.5)))))
      else if nonlinear_type self = ''power'' then
        (if aggressiveness self = 0 then Inl ZeroDivisionError
         else let power = 0.7 / aggressiveness self in float_pow (1 - x) power)
      else if nonlinear_type self = ''custom'' then Inr (np_interp x points_x points_y)
      else float_pow (1 - x) 0.7)"

definition nonlinear_position_sizing :: "strategy \<Rightarrow> real \<Rightarrow> py_error + real" where
  "nonlinear_position_sizing self percentile =
     (let x = percentile / 100 in
      case position_curve self x of
        Inl e \<Rightarrow> Inl e
      | Inr position \<Rightarrow> Inr (np_clip position 0 1))"

subsection \<open>select_top_etfs\<close>

record etf_score =
  name :: string
  percentile :: real
  current_value :: real
  valuation_score :: real
  momentum_score :: real
  volatility_score :: real
  total_score :: real
  latest_price :: real

definition calculate_valuation_percentile :: "strategy \<Rightarrow> real list \<Rightarrow> py_error + wp_result" where
  "calculate_valuation_percentile self data = calculate_weighted_percentile self data"

text \<open>
  The body of the loop over \<open>self.etf_data.items()\<close>. The tuple assignment
  \<open>percentile, current_val = ...\<close> raises TypeError on the bare float of an empty frame.
\<close>

definition score_etf :: "strategy \<Rightarrow> string \<Rightarrow> real list \<Rightarrow> py_error + etf_score" where
  "score_etf self etf_name data =
     (case calculate_valuation_percentile self data of
        Inl e \<Rightarrow> Inl e
      | Inr (Scalar v) \<Rightarrow> Inl TypeError
      | Inr (Tuple p current_val) \<Rightarrow>
          let valuation_score = 100 - p;
              momentum_score = 10;
              volatility_score = 5;
              total_score = valuation_score * 0.8 + momentum_score * 0.1 + volatility_score * 0.1
          in Inr \<lparr> name = etf_name, percentile = p, current_value = current_val,
                    valuation_score = valuation_score, momentum_score = momentum_score,
                    volatility_score = volatility_score, total_score = total_score,
                    latest_price = current_val \<rparr>)"

fun score_all :: "strategy \<Rightarrow> (string \<times> real list) list \<Rightarrow> py_error + etf_score list" where
  "score_all self [] = Inr []"
| "score_all self ((etf_name, data) # rest) =
     (case score_etf self etf_name data of
        Inl e \<Rightarrow> Inl e
      | Inr s \<Rightarrow>
          (case score_all self rest of
             Inl e \<Rightarrow> Inl e
           | Inr ss \<Rightarrow> Inr (s # ss)))"

text \<open>
  \<open>sorted(..., key=..., reverse=True)\<close> is a stable sort into descending key order:
  elements with equal keys keep their order. \<open>xs[:n]\<close> with a negative \<open>n\<close> drops the
  last \<open>-n\<close> elements.
\<close>

definition sorted_reverse :: "('a \<Rightarrow> real) \<Rightarrow> 'a list \<Rightarrow> 'a list" where
  "sorted_reverse key xs = sort_key (\<lambda>x. - key x) xs"

definition slice_to :: "'a list \<Rightarrow> int \<Rightarrow> 'a list" where
  "slice_to xs n = (if 0 \<le> n then take (nat n) xs else take (length xs - nat (- n)) xs)"

definition select_top_etfs :: "strategy \<Rightarrow> int \<Rightarrow> py_error + etf_score list" where
  "select_top_etfs self n_select =
     (case score_all self (etf_data self) of
        Inl e \<Rightarrow> Inl e
      | Inr etf_scores \<Rightarrow> Inr (slice_to (sorted_reverse total_score etf_scores) n_select))"

subsection \<open>calculate_nonlinear_weights\<close>

text \<open>
  The comprehension \<open>[w / total for w in weights_raw]\<close> divides once per element, so
  it raises ZeroDivisionError exactly when \<open>total\<close> is zero and there is an element.
\<close>

definition calculate_nonlinear_weights :: "etf_score list \<Rightarrow> py_error + real list" where
  "calculate_nonlinear_weights selected_etfs =
     (let percentiles = map percentile selected_etfs;
          weights_raw = map (\<lambda>p. ((100 - p) / 50) ^ 2) percentiles;
          total = sum_list weights_raw
      in if weights_raw \<noteq> [] \<and> total = 0 then Inl ZeroDivisionError
         else Inr (map (\<lambda>w. w / total) weights_raw))"

section \<open>sw_lv2_selector.py: the composite screener\<close>

text \<open>
  A row of the valuation data frame: index code, publication date (as a day number),
  P/E, closing index, period change in percent, turnover rate. The codes of the frame
  are integers, so the two alternatives of the source's mask (compare as integer, compare
  as string) select the same rows and the mask is equality of codes.
\<close>

record sw_row =
  row_code :: int
  row_date :: int
  row_pe :: "real option"
  row_close :: "real option"
  row_change :: "real option"
  row_turnover :: "real option"

record pe_item =
  date :: int
  pe :: real
  price :: real

definition rows_of :: "int \<Rightarrow> sw_row list \<Rightarrow> sw_row list" where
  "rows_of index_code df = filter (\<lambda>r. row_code r = index_code) df"

text \<open>
  \<open>sort_values(by=date, ascending=False)\<close>. The frames hold one row per code and date;
  rows of equal date are kept in their order.
\<close>

definition sort_values_desc :: "sw_row list \<Rightarrow> sw_row list" where
  "sort_values_desc df = sort_key (\<lambda>r. - row_date r) df"

text \<open>\<open>Series.mean()\<close> skips NaN and is NaN when nothing is left.\<close>

definition series_mean :: "real option list \<Rightarrow> real option" where
  "series_mean xs =
     (let vs = List.map_filter (\<lambda>v. v) xs
      in if vs = [] then None else Some (sum_list vs / real (length vs)))"

definition get_index_current_pe :: "int \<Rightarrow> sw_row list \<Rightarrow> real option" where
  "get_index_current_pe index_code current_df =
     (case rows_of index_code current_df of
        [] \<Rightarrow> None
      | r # _ \<Rightarrow>
          (case row_pe r of
             None \<Rightarrow> None
           | Some pe_value \<Rightarrow> if 0 < pe_value then Some pe_value else None))"

fun history_items :: "sw_row list \<Rightarrow> pe_item list" where
  "history_items [] = []"
| "history_items (r # rs) =
     (case (row_pe r, row_close r) of
        (Some pe_value, Some price_value) \<Rightarrow>
          if 0 < pe_value \<and> 0 < price_value
          then \<lparr> date = row_date r, pe = pe_value, price = price_value \<rparr> # history_items rs
          else history_items rs
      | _ \<Rightarrow> history_items rs)"

definition get_index_monthly_pe_history :: "int \<Rightarrow> sw_row list \<Rightarrow> pe_item list" where
  "get_index_monthly_pe_history index_code monthly_df =
     (let index_data = rows_of index_code monthly_df
      in if index_data = [] then []
         else history_items (take 120 (sort_values_desc index_data)))"

definition calculate_pe_percentile :: "real option \<Rightarrow> pe_item list \<Rightarrow> real option" where
  "calculate_pe_percentile latest_pe pe_history =
     (case latest_pe of
        None \<Rightarrow> None
      | Some latest \<Rightarrow>
          if pe_history = [] then None
          else
            let pe_values = filter (\<lambda>v. 0 < v) (map pe pe_history)
            in if pe_values = [] then None
               else Some (real (length (filter (\<lambda>v. v < latest) pe_values))
                          / real (length pe_values)))"

definition calculate_price_percentile :: "real option \<Rightarrow> pe_item list \<Rightarrow> real option" where
  "calculate_price_percentile current_price price_history =
     (case current_price of
        None \<Rightarrow> None
      | Some current \<Rightarrow>
          if price_history = [] then None
          else
            let price_values = filter (\<lambda>v. 0 < v) (map price price_history)
            in if price_values = [] then None
               else Some (real (length (filter (\<lambda>v. v < current) price_values))
                          / real (length price_values)))"

text \<open>
  The loop of \<open>check_valuation_declining\<close> over \<open>i\<close>, on a history in descending date
  order: it counts while \<open>pe_history[i] < pe_history[i + 1]\<close> and breaks at the first
  pair that is not so.
\<close>

fun declining_loop :: "real list \<Rightarrow> nat \<Rightarrow> nat" where
  "declining_loop (a # b # rest) declining_months =
     (if a < b then declining_loop (b # rest) (declining_months + 1) else declining_months)"
| "declining_loop [a] declining_months = declining_months"
| "declining_loop [] declining_months = declining_months"

definition check_valuation_declining :: "pe_item list \<Rightarrow> nat" where
  "check_valuation_declining pe_history =
     (if length pe_history < 2 then 0 else declining_loop (map pe pe_history) 0)"

definition calculate_valuation_safety_score ::
    "real option \<Rightarrow> real option \<Rightarrow> pe_item list \<Rightarrow> real" where
  "calculate_valuation_safety_score pe_percentile price_percentile pe_history =
     (case (pe_percentile, price_percentile) of
        (Some pe_pct, Some price_pct) \<Rightarrow>
          let q = pe_pct * 100;
              pct_price = price_pct * 100;
              declining_months = check_valuation_declining pe_history
          in if q < 10 \<or> 3 \<le> declining_months then 0
             else if 70 < pct_price then 0
             else if 10 \<le> q \<and> q \<le> 30 \<and> pct_price \<le> 50
               then (30 - q) / 20 * (70 - pct_price) / 70
             else if 10 \<le> q \<and> q \<le> 30 \<and> 50 < pct_price \<and> pct_price \<le> 70
               then (30 - q) / 20 * 0.5
             else if 30 < q \<and> q \<le> 50 \<and> pct_price \<le> 50
               then 0.1 * (50 - q) / 20
             else 0
      | _ \<Rightarrow> 0)"

text \<open>A comparison with NaN is false: \<open>etf_change >= all_indices_avg_change\<close>.\<close>

definition ge_nan :: "real \<Rightarrow> real option \<Rightarrow> bool" where
  "ge_nan x y = (case y of None \<Rightarrow> False | Some v \<Rightarrow> v \<le> x)"

definition calculate_price_resilience_coefficient ::
    "int \<Rightarrow> sw_row list \<Rightarrow> real option \<Rightarrow> real" where
  "calculate_price_resilience_coefficient index_code monthly_df all_indices_avg_change =
     (let index_data = rows_of index_code monthly_df
      in if index_data = [] then 0
         else
           (case take 1 (sort_values_desc index_data) of
              [] \<Rightarrow> 0
            | r # _ \<Rightarrow>
                (case row_change r of
                   None \<Rightarrow> 0
                 | Some etf_change \<Rightarrow>
                     if ge_nan etf_change all_indices_avg_change then 1
                     else if - 10 \<le> etf_change then max 0 ((etf_change + 10) / 10)
                     else 0)))"

definition calculate_trading_activity_coefficient :: "int \<Rightarrow> sw_row list \<Rightarrow> real" where
  "calculate_trading_activity_coefficient index_code monthly_df =
     (let index_data = rows_of index_code monthly_df
      in if index_data = [] then 0
         else
           let recent_20 = take 20 (sort_values_desc index_data)
           in if length recent_20 < 20 then 0
              else
                let recent_120 = take 120 (sort_values_desc index_data)
                in if length recent_120 < 120 then 0
                   else
                     (case (series_mean (map row_turnover recent_20),
                            series_mean (map row_turnover recent_120)) of
                        (Some avg_turnover_20, Some avg_turnover_120) \<Rightarrow>
                          if avg_turnover_120 = 0 then 0
                          else if avg_turnover_120 \<le> avg_turnover_20 then 1
                          else if 0.5 * avg_turnover_120 \<le> avg_turnover_20 then 0.7
                          else if 0.2 * avg_turnover_120 \<le> avg_turnover_20 then 0.3
                          else 0
                      | _ \<Rightarrow> 0))"

definition calculate_comprehensive_score :: "real \<Rightarrow> real \<Rightarrow> real \<Rightarrow> real" where
  "calculate_comprehensive_score safety_score trading_activity price_resilience =
     safety_score * trading_activity * price_resilience * 100"

subsection \<open>select_best_sw_lv2_indices_by_valuation\<close>

record screening =
  code :: int
  index_name :: string
  current_pe :: real
  current_pe_percentile :: real
  current_price_percentile :: real
  safety_score :: real
  trading_activity :: real
  price_resilience :: real
  comprehensive_score :: real

text \<open>\<open>groupby(code).head(1)\<close>: the first row of every code, in frame order.\<close>

fun groupby_head1 :: "sw_row list \<Rightarrow> int list \<Rightarrow> sw_row list" where
  "groupby_head1 [] seen = []"
| "groupby_head1 (r # rs) seen =
     (if row_code r \<in> set seen then groupby_head1 rs seen
      else r # groupby_head1 rs (row_code r # seen))"

text \<open>
  The body of the loop over \<open>sw_lv2_indices.items()\<close>: \<open>None\<close> where the source takes
  \<open>continue\<close> or the branch that only prints, the appended dict otherwise.
\<close>

definition evaluate_index ::
    "sw_row list \<Rightarrow> sw_row list \<Rightarrow> real option \<Rightarrow> int \<Rightarrow> string \<Rightarrow> screening option" where
  "evaluate_index current_df monthly_df all_indices_avg_change c industry_name =
     (case get_index_current_pe c current_df of
        None \<Rightarrow> None
      | Some cur_pe \<Rightarrow>
          let history = get_index_monthly_pe_history c monthly_df
          in if history = [] then None
             else
               (case calculate_pe_percentile (Some cur_pe) history of
                  None \<Rightarrow> None
                | Some pe_percentile \<Rightarrow>
                    (case calculate_price_percentile (Some (price (hd history))) history of
                       None \<Rightarrow> None
                     | Some price_percentile \<Rightarrow>
                         let safety = calculate_valuation_safety_score
                                        (Some pe_percentile) (Some price_percentile) history;
                             resilience = calculate_price_resilience_coefficient
                                            c monthly_df all_indices_avg_change;
                             activity = calculate_trading_activity_coefficient c monthly_df;
                             score = calculate_comprehensive_score safety activity resilience
                         in if 0 < score
                            then Some \<lparr> code = c, index_name = industry_name,
                                        current_pe = cur_pe,
                                        current_pe_percentile = pe_percentile,
                                        current_price_percentile = price_percentile,
                                        safety_score = safety,
                                        trading_activity = activity,
                                        price_resilience = resilience,
                                        comprehensive_score = score \<rparr>
                            else None)))"

fun collect_valuations ::
    "sw_row list \<Rightarrow> sw_row list \<Rightarrow> real option \<Rightarrow> (int \<times> string) list \<Rightarrow> screening list" where
  "collect_valuations current_df monthly_df avg [] = []"
| "collect_valuations current_df monthly_df avg ((c, industry_name) # rest) =
     (case evaluate_index current_df monthly_df avg c industry_name of
        None \<Rightarrow> collect_valuations current_df monthly_df avg rest
      | Some v \<Rightarrow> v # collect_valuations current_df monthly_df avg rest)"

text \<open>
  The function reads its three inputs from files; here they are parameters: the frame of
  current rows, the monthly frame, and the dict of indices as the list of its items.
  \<open>index_valuations_of\<close> is the list \<open>index_valuations\<close> as the loop leaves it (lines 380
  to 453); the function then sorts and truncates it (lines 455 to 465).
\<close>

definition index_valuations_of ::
    "sw_row list \<Rightarrow> sw_row list \<Rightarrow> (int \<times> string) list \<Rightarrow> screening list" where
  "index_valuations_of current_df monthly_df sw_lv2_indices =
     (let recent_all = groupby_head1 (sort_values_desc monthly_df) [];
          all_indices_avg_change = series_mean (map row_change recent_all)
      in collect_valuations current_df monthly_df all_indices_avg_change sw_lv2_indices)"

definition select_best_sw_lv2_indices_by_valuation ::
    "sw_row list \<Rightarrow> sw_row list \<Rightarrow> (int \<times> string) list \<Rightarrow> screening list" where
  "select_best_sw_lv2_indices_by_valuation current_df monthly_df sw_lv2_indices =
     (let index_valuations = index_valuations_of current_df monthly_df sw_lv2_indices
      in if index_valuations \<noteq> [] then
           (let ranked = sorted_reverse comprehensive_score index_valuations
            in if 8 < length ranked then take 8 ranked else ranked)
         else [])"

section \<open>Definitions that follow the specification's words\<close>

text \<open>
  The specification's \<open>declining_months\<close>: on the values of a history in descending date
  order, the number of consecutive most recent months whose value is strictly below the
  month before, scanning from the latest backward and stopping at the first that is not.
\<close>

definition consecutive_declines :: "real list \<Rightarrow> nat" where
  "consecutive_declines vs = length (takeWhile (\<lambda>(a, b). a < b) (zip vs (tl vs)))"

text \<open>
  The specification's weighted percentile over given indicator values: time index \<open>t\<close>
  runs from 1 (earliest) to \<open>T\<close> (latest), the weight of \<open>t\<close> is \<open>lam ^ (T - t)\<close>, and
  the percentile is the weighted share of the indicators, times 100.
\<close>

definition spec_weighted_percentile :: "real \<Rightarrow> real list \<Rightarrow> real" where
  "spec_weighted_percentile lam indicators =
     (let T = length indicators
      in (\<Sum>t = 1..T. lam ^ (T - t) * indicators ! (t - 1)) / (\<Sum>t = 1..T. lam ^ (T - t)) * 100)"


section \<open>Sample inputs\<close>

text \<open>
  The configuration that \<open>main\<close> builds, over one frame whose latest value lies above
  the upper clip bound of its own history.
\<close>

definition sample_strategy :: strategy where
  "sample_strategy =
     \<lparr> total_capital = 1000000, nonlinear_type = ''sigmoid'', aggressiveness = 1.2,
       lambda_decay = 0.95, winsorize_pct = 0.05,
       etf_data = [(''spike'', [1, 2, 3, 4, 100])] \<rparr>"


definition flat_history :: "pe_item list" where
  "flat_history = [\<lparr>date = 3, pe = 10, price = 5\<rparr>, \<lparr>date = 2, pe = 10, price = 5\<rparr>]"

definition falling_history :: "pe_item list" where
  "falling_history =
     [\<lparr>date = 4, pe = 7, price = 5\<rparr>, \<lparr>date = 3, pe = 8, price = 5\<rparr>,
      \<lparr>date = 2, pe = 9, price = 5\<rparr>, \<lparr>date = 1, pe = 10, price = 5\<rparr>]"

text \<open>
  Two indices in the monthly frame. Index 801010 has 120 months, newest first: a P/E of
  10 that was 5 in the twelve oldest months, a closing index at its lowest in the latest
  month, a constant turnover, and a latest change of +5 per cent. Index 801020 has one
  month with a change of +11 per cent, so the average latest change is 8.
\<close>

definition sample_row :: "int \<Rightarrow> real \<Rightarrow> int \<Rightarrow> sw_row" where
  "sample_row c ch d =
     \<lparr> row_code = c, row_date = d, row_pe = Some (if d < 12 then 5 else 10),
       row_close = Some (if d = 119 then 1 else 2), row_change = Some ch,
       row_turnover = Some 1 \<rparr>"

definition sample_monthly :: "sw_row list" where
  "sample_monthly = map (sample_row 801010 5) (rev [0..119]) @ [sample_row 801020 11 119]"

definition sample_current :: "sw_row list" where
  "sample_current = [sample_row 801010 5 119, sample_row 801020 11 119]"

definition sample_indices :: "(int \<times> string) list" where
  "sample_indices = [(801010, ''A''), (801020, ''B'')]"

section \<open>The safety score's exclusion rules\<close>

lemma declining_loop_count: "declining_loop vs n = n + consecutive_declines vs"
  by (induction vs n rule: declining_loop.induct) (simp_all add: consecutive_declines_def)

lemma check_valuation_declining_count:
  "check_valuation_declining h = consecutive_declines (map pe h)"
proof (cases "length h < 2")
  case True
  then have "zip (map pe h) (tl (map pe h)) = []"
    by (cases h) auto
  then have "consecutive_declines (map pe h) = 0"
    unfolding consecutive_declines_def by (simp only: takeWhile.simps list.size)
  with True show ?thesis
    by (simp add: check_valuation_declining_def)
next
  case False
  then show ?thesis
    by (simp add: check_valuation_declining_def declining_loop_count)
qed

text \<open>
  C5. Whenever both percentiles are defined and \<open>q < 10\<close>, or the valuation has declined
  for three or more consecutive most recent months, or \<open>pp > 70\<close> (with \<open>q\<close> and \<open>pp\<close>
  the two percentiles times 100), the safety score is 0, and so is the composite score,
  whatever the other two axes and the other two factors are.
\<close>

theorem safety_score_exclusion_rules:
  assumes "pe_pct * 100 < 10 \<or> 3 \<le> consecutive_declines (map pe pe_history)
           \<or> 70 < price_pct * 100"
  shows "calculate_valuation_safety_score (Some pe_pct) (Some price_pct) pe_history = 0
       \<and> calculate_comprehensive_score
           (calculate_valuation_safety_score (Some pe_pct) (Some price_pct) pe_history)
           activity resilience = 0"
  using assms
  by (auto simp add: calculate_valuation_safety_score_def calculate_comprehensive_score_def
        check_valuation_declining_count Let_def)

text \<open>
  Each exclusion on its own, the other two axes favourable (\<open>q = 20\<close>, \<open>pp = 20\<close>, no
  decline score 5/14 together).
\<close>

theorem safety_score_exclusion_rules_witness:
  "calculate_valuation_safety_score (Some 0.05) (Some 0.2) flat_history = 0
   \<and> consecutive_declines (map pe falling_history) = 3
   \<and> calculate_valuation_safety_score (Some 0.2) (Some 0.2) falling_history = 0
   \<and> calculate_valuation_safety_score (Some 0.2) (Some 0.8) flat_history = 0
   \<and> calculate_valuation_safety_score (Some 0.2) (Some 0.2) flat_history = 5 / 14
   \<and> calculate_comprehensive_score
        (calculate_valuation_safety_score (Some 0.05) (Some 0.2) flat_history) 1 1 = 0"
proof -
  have d: "consecutive_declines (map pe falling_history) = 3"
    by (simp add: consecutive_declines_def falling_history_def)
  have a: "(0.05::real) * 100 < 10 \<or> 3 \<le> consecutive_declines (map pe flat_history)
           \<or> 70 < (0.2::real) * 100"
    by simp
  have b: "(0.2::real) * 100 < 10 \<or> 3 \<le> consecutive_declines (map pe falling_history)
           \<or> 70 < (0.2::real) * 100"
    using d by simp
  have c: "(0.2::real) * 100 < 10 \<or> 3 \<le> consecutive_declines (map pe flat_history)
           \<or> 70 < (0.8::real) * 100"
    by simp
  have ok: "calculate_valuation_safety_score (Some 0.2) (Some 0.2) flat_history = 5 / 14"
    by (simp add: calculate_valuation_safety_score_def check_valuation_declining_def
          flat_history_def Let_def)
  from safety_score_exclusion_rules [OF a, of 1 1] safety_score_exclusion_rules [OF b, of 1 1]
    safety_score_exclusion_rules [OF c, of 1 1] d ok
  show ?thesis
    by blast
qed

section \<open>The percentile scorer\<close>

lemma np_percentile_defined:
  assumes "0 \<le> q" "q \<le> 100" "a \<noteq> []"
  shows "\<exists>v. np_percentile a q = Inr v"
  using assms by (simp add: np_percentile_def Let_def)

lemma np_percentile_single:
  assumes "0 \<le> q" "q \<le> 100"
  shows "np_percentile [x] q = Inr x"
  using assms by (simp add: np_percentile_def)

lemma clip_bounds_defined:
  assumes "0 \<le> pct" "pct \<le> 1" "data \<noteq> []"
  shows "\<exists>lo hi. clip_bounds data pct = Inr (lo, hi)"
proof -
  from assms obtain lo where lo: "np_percentile data (pct * 100) = Inr lo"
    using np_percentile_defined [of "pct * 100" data] by auto
  from assms obtain hi where hi: "np_percentile data ((1 - pct) * 100) = Inr hi"
    using np_percentile_defined [of "(1 - pct) * 100" data] by auto
  from lo hi show ?thesis by (simp add: clip_bounds_def)
qed

lemma winsorize_defined:
  assumes "0 \<le> pct" "pct \<le> 1"
  shows "\<exists>w. winsorize data pct = Inr w \<and> length w = length data"
proof (cases "data = []")
  case True
  then show ?thesis by (simp add: winsorize_def)
next
  case False
  with assms obtain lo hi where "clip_bounds data pct = Inr (lo, hi)"
    using clip_bounds_defined by blast
  with False show ?thesis by (simp add: winsorize_def)
qed

lemma winsorized_current_value_unclipped:
  assumes "0 \<le> pct" "pct \<le> 1"
  shows "winsorized_current_value v pct = Inr v"
  using assms
  by (simp add: winsorized_current_value_def winsorize_def clip_bounds_def
        np_percentile_single np_clip_def)

lemma calculate_weighted_percentile_defined:
  assumes "0 \<le> winsorize_pct self" "winsorize_pct self \<le> 1"
  shows "\<exists>r. calculate_weighted_percentile self data = Inr r"
proof -
  from assms obtain w where "winsorize data (winsorize_pct self) = Inr w"
    using winsorize_defined by blast
  with assms show ?thesis
    by (simp add: calculate_weighted_percentile_def winsorized_current_value_unclipped Let_def)
qed

lemma calculate_weighted_percentile_single:
  assumes "0 < lambda_decay self" "0 \<le> winsorize_pct self" "winsorize_pct self \<le> 1"
  shows "calculate_weighted_percentile self [x] = Inr (Tuple 0 x)"
  using assms
  by (simp add: calculate_weighted_percentile_def winsorized_current_value_unclipped
        winsorize_def clip_bounds_def np_percentile_single np_clip_def Let_def
        loop_weights_def loop_indicators_def weighted_ratio_def)

text \<open>
  C9. For a decay factor above 0 and a winsorizing share in \<open>[0, 1]\<close> (the contract's
  \<open>(0, 1]\<close> and \<open>[0, 0.5)\<close> lie inside), \<open>calculate_weighted_percentile\<close> raises on
  no series: it returns a value. On the empty series the value is the bare \<open>0.0\<close>, and on
  a series of one observation the percentile is 0, next to that observation.
\<close>

theorem weighted_percentile_never_raises:
  assumes "0 < lambda_decay self" "0 \<le> winsorize_pct self" "winsorize_pct self \<le> 1"
  shows "(\<exists>r. calculate_weighted_percentile self data = Inr r)
       \<and> calculate_weighted_percentile self [] = Inr (Scalar 0)
       \<and> calculate_weighted_percentile self [x] = Inr (Tuple 0 x)"
  using assms calculate_weighted_percentile_defined [of self data]
    calculate_weighted_percentile_single [of self x]
  by (simp add: calculate_weighted_percentile_def)

text \<open>The configuration of \<open>main\<close>, on a five-point, an empty and a one-point series.\<close>

theorem weighted_percentile_never_raises_witness:
  "(\<exists>r. calculate_weighted_percentile sample_strategy [1, 2, 3, 4, 100] = Inr r)
   \<and> calculate_weighted_percentile sample_strategy [] = Inr (Scalar 0)
   \<and> calculate_weighted_percentile sample_strategy [7] = Inr (Tuple 0 7)"
proof -
  have "0 < lambda_decay sample_strategy" "0 \<le> winsorize_pct sample_strategy"
    "winsorize_pct sample_strategy \<le> 1"
    by (simp_all add: sample_strategy_def)
  from weighted_percentile_never_raises [OF this, of "[1, 2, 3, 4, 100]" 7]
  show ?thesis .
qed

subsection \<open>The weights of the loop and of the specification\<close>

text \<open>
  The loop index runs over \<open>range(T)\<close>, from 0, so the weight the code gives the latest
  observation is \<open>lam\<close>, not 1: every weight is \<open>lam\<close> times the specification's. The
  common factor cancels in the ratio.
\<close>

lemma loop_weights_latest: "0 < T \<Longrightarrow> last (loop_weights lam T) = lam"
  by (cases T) (simp_all add: loop_weights_def)

lemma spec_sum_shift:
  fixes g :: "nat \<Rightarrow> real"
  shows "(\<Sum>t = 1..T. g t) = (\<Sum>i<T. g (Suc i))"
  by (rule sum.reindex_bij_witness [where i = Suc and j = "\<lambda>t. t - 1"]) auto

lemma loop_weights_sum:
  "sum_list (loop_weights lam T) = (\<Sum>i<T. lam ^ (T - i))"
  by (simp add: loop_weights_def interv_sum_list_conv_sum_set_nat atLeast0LessThan)

lemma loop_weighted_sum:
  assumes "length inds = T"
  shows "sum_list (map (\<lambda>(w, i). w * i) (zip (loop_weights lam T) inds))
         = (\<Sum>i<T. lam ^ (T - i) * inds ! i)"
proof -
  have "zip (loop_weights lam T) inds = map (\<lambda>t. (lam ^ (T - t), inds ! t)) [0..<T]"
    using assms by (intro nth_equalityI) (simp_all add: loop_weights_def)
  then show ?thesis
    by (simp add: interv_sum_list_conv_sum_set_nat atLeast0LessThan comp_def)
qed

lemma decay_factor_out:
  fixes lam :: real
  shows "(\<Sum>i<T. lam ^ (T - i) * c i) = lam * (\<Sum>i<T. lam ^ (T - Suc i) * c i)"
proof -
  have "(\<Sum>i<T. lam ^ (T - i) * c i) = (\<Sum>i<T. lam * (lam ^ (T - Suc i) * c i))"
  proof (rule sum.cong)
    fix i assume "i \<in> {..<T}"
    then have "T - i = Suc (T - Suc i)" by auto
    then show "lam ^ (T - i) * c i = lam * (lam ^ (T - Suc i) * c i)" by simp
  qed simp
  then show ?thesis by (simp add: sum_distrib_left)
qed

lemma weighted_ratio_is_spec:
  assumes "length inds = T" "0 < T" "0 < lam"
  shows "weighted_ratio (loop_weights lam T) inds = spec_weighted_percentile lam inds"
proof -
  let ?A = "\<Sum>i<T. lam ^ (T - Suc i) * inds ! i"
  let ?B = "\<Sum>i<T. lam ^ (T - Suc i)"
  have num: "sum_list (map (\<lambda>(w, i). w * i) (zip (loop_weights lam T) inds)) = lam * ?A"
    using assms(1) by (simp add: loop_weighted_sum decay_factor_out)
  have den: "sum_list (loop_weights lam T) = lam * ?B"
    using decay_factor_out [of lam T "\<lambda>i. 1"] by (simp add: loop_weights_sum)
  have "0 < ?B"
    using assms(2,3) by (intro sum_pos) auto
  with assms(3) have pos: "0 < lam * ?B" by simp
  have "weighted_ratio (loop_weights lam T) inds = lam * ?A / (lam * ?B) * 100"
    using pos by (simp add: weighted_ratio_def num den Let_def)
  also have "\<dots> = ?A / ?B * 100"
    using assms(3) by simp
  also have "\<dots> = spec_weighted_percentile lam inds"
  proof -
    have "(\<Sum>t = 1..T. lam ^ (T - t) * inds ! (t - 1)) = ?A"
      using spec_sum_shift [of "\<lambda>t. lam ^ (T - t) * inds ! (t - 1)" T] by simp
    moreover have "(\<Sum>t = 1..T. lam ^ (T - t)) = ?B"
      using spec_sum_shift [of "\<lambda>t. lam ^ (T - t)" T] by simp
    ultimately show ?thesis
      unfolding spec_weighted_percentile_def Let_def assms(1) by (simp only:)
  qed
  finally show ?thesis .
qed

text \<open>
  C4. For a non-empty series, a decay factor in \<open>(0, 1]\<close> and a winsorizing share in
  \<open>[0, 0.5)\<close>, with the indicators as the code computes them (1 where the winsorized
  historical value is below the winsorized current value, else 0), the returned percentile
  is the specification's weighted percentile with weight \<open>lam ^ (T - t)\<close> for the
  1-indexed \<open>t\<close>.
\<close>

theorem weighted_percentile_formula:
  assumes "data \<noteq> []" "0 < lambda_decay self" "lambda_decay self \<le> 1"
    "0 \<le> winsorize_pct self" "winsorize_pct self < 0.5"
  shows "\<exists>wv wc. winsorize data (winsorize_pct self) = Inr wv
           \<and> winsorized_current_value (last data) (winsorize_pct self) = Inr wc
           \<and> length wv = length data
           \<and> (\<forall>t. t < length data \<longrightarrow>
                 loop_indicators wv wc ! t = (if wv ! t < wc then 1 else 0))
           \<and> calculate_weighted_percentile self data
               = Inr (Tuple (spec_weighted_percentile (lambda_decay self) (loop_indicators wv wc))
                        (last data))"
proof -
  from assms have pct: "0 \<le> winsorize_pct self" "winsorize_pct self \<le> 1" by simp_all
  from pct obtain wv where wv: "winsorize data (winsorize_pct self) = Inr wv"
    and len: "length wv = length data"
    using winsorize_defined by blast
  have wc: "winsorized_current_value (last data) (winsorize_pct self) = Inr (last data)"
    using pct by (rule winsorized_current_value_unclipped)
  have li: "length (loop_indicators wv (last data)) = length data"
    by (simp add: loop_indicators_def len)
  have ind: "\<forall>t. t < length data \<longrightarrow>
      loop_indicators wv (last data) ! t = (if wv ! t < last data then 1 else 0)"
    by (simp add: loop_indicators_def len)
  from assms(1) have "0 < length data" by simp
  with li assms(2)
  have "weighted_ratio (loop_weights (lambda_decay self) (length data))
          (loop_indicators wv (last data))
        = spec_weighted_percentile (lambda_decay self) (loop_indicators wv (last data))"
    by (intro weighted_ratio_is_spec)
  with assms(1) wv wc
  have "calculate_weighted_percentile self data
        = Inr (Tuple (spec_weighted_percentile (lambda_decay self)
                        (loop_indicators wv (last data))) (last data))"
    by (simp add: calculate_weighted_percentile_def Let_def)
  with wv wc len ind show ?thesis by blast
qed

text \<open>The configuration of \<open>main\<close> on the series 3, 1, 2.\<close>

theorem weighted_percentile_formula_witness:
  "calculate_weighted_percentile sample_strategy [3, 1, 2]
   = Inr (Tuple (spec_weighted_percentile 0.95 [0, 1, 0]) 2)
   \<and> spec_weighted_percentile 0.95 [0, 1, 0] = 38000 / 1141
   \<and> winsorize [3, 1, 2] 0.05 = Inr [29 / 10, 11 / 10, 2]"
proof -
  have h: "[3, 1, 2] \<noteq> ([]::real list)" "0 < lambda_decay sample_strategy"
    "lambda_decay sample_strategy \<le> 1" "0 \<le> winsorize_pct sample_strategy"
    "winsorize_pct sample_strategy < 0.5"
    by (simp_all add: sample_strategy_def)
  have w: "winsorize [3, 1, 2] (winsorize_pct sample_strategy) = Inr [29 / 10, 11 / 10, 2]"
    by (simp add: sample_strategy_def winsorize_def clip_bounds_def np_percentile_def
          np_clip_def Let_def)
  have c: "winsorized_current_value (last [3, 1, 2]) (winsorize_pct sample_strategy) = Inr 2"
    by (simp add: sample_strategy_def winsorized_current_value_def winsorize_def
          clip_bounds_def np_percentile_def np_clip_def Let_def)
  have i: "loop_indicators [29 / 10, 11 / 10, 2] 2 = [0, 1, 0]"
    by (simp add: loop_indicators_def upt_conv_Cons)
  have s: "spec_weighted_percentile 0.95 [0, 1, 0] = 38000 / 1141"
    by (simp add: spec_weighted_percentile_def Let_def sum.atLeast_Suc_atMost
          numeral_3_eq_3)
  have l: "lambda_decay sample_strategy = 0.95" "winsorize_pct sample_strategy = 0.05"
    by (simp_all add: sample_strategy_def)
  from weighted_percentile_formula [OF h] w c i s show ?thesis
    unfolding l by auto
qed

text \<open>
  C1. The claim: the current value enters the indicator comparisons clipped to the bounds
  of the whole series. The code computes the bounds of the one-element array holding the
  current value, which are that value itself, so the current value is compared unclipped.
  On the series \<open>1, 2, 3, 4, 100\<close> with the default share 0.05 the bounds of the series
  are 1.2 and 80.8, the history is clipped to them, the current value stays 100 where the
  bounds would give 80.8, and the returned percentile is 100.
\<close>

theorem current_value_not_clipped_to_series_bounds:
  "clip_bounds [1, 2, 3, 4, 100] (winsorize_pct sample_strategy) = Inr (6 / 5, 404 / 5)
   \<and> winsorize [1, 2, 3, 4, 100] (winsorize_pct sample_strategy) = Inr [6 / 5, 2, 3, 4, 404 / 5]
   \<and> winsorized_current_value 100 (winsorize_pct sample_strategy) = Inr 100
   \<and> np_clip 100 (6 / 5) (404 / 5) = 404 / 5
   \<and> calculate_weighted_percentile sample_strategy [1, 2, 3, 4, 100] = Inr (Tuple 100 100)"
  by (simp add: sample_strategy_def calculate_weighted_percentile_def winsorize_def
        winsorized_current_value_def clip_bounds_def np_percentile_def Let_def
        loop_weights_def loop_indicators_def weighted_ratio_def np_clip_def upt_conv_Cons)

section \<open>The ETF ranking\<close>









section \<open>The allocation planner's weights\<close>

lemma nonlinear_weights_raise_iff:
  "calculate_nonlinear_weights sel = Inl ZeroDivisionError
   \<longleftrightarrow> sel \<noteq> [] \<and> (\<forall>e \<in> set sel. percentile e = 100)"
proof -
  have "sum_list (map (\<lambda>p. ((100 - p) / 50) ^ 2) (map percentile sel)) = 0
        \<longleftrightarrow> (\<forall>w \<in> set (map (\<lambda>p. ((100 - p) / 50) ^ 2) (map percentile sel)). w = (0::real))"
    by (intro sum_list_nonneg_eq_0_iff) auto
  then show ?thesis
    by (auto simp add: calculate_nonlinear_weights_def Let_def)
qed

text \<open>
  C3. The claim: the normalisation of the weights returns defined values and never raises
  when the raw factors sum to zero. On the sample strategy the one selected ETF has
  percentile 100, its factor is 0, the total is 0, and the division raises
  ZeroDivisionError.
\<close>

theorem nonlinear_weights_zero_total_raises:
  "map percentile (case select_top_etfs sample_strategy 3 of Inr sel \<Rightarrow> sel | Inl e \<Rightarrow> []) = [100]
   \<and> (case select_top_etfs sample_strategy 3 of
        Inl e \<Rightarrow> Inl e
      | Inr sel \<Rightarrow> calculate_nonlinear_weights sel) = Inl ZeroDivisionError"
  by code_simp

section \<open>The position sizer\<close>

lemma np_clip_unit: "0 \<le> np_clip v 0 1 \<and> np_clip v 0 1 \<le> 1"
  by (simp add: np_clip_def)


lemma float_pow_defined:
  assumes "0 \<le> b" "0 < e"
  shows "\<exists>v. float_pow b e = Inr v"
  using assms by (simp add: float_pow_def)

lemma position_curve_defined:
  assumes "x \<le> 1" "0 < aggressiveness self"
  shows "\<exists>v. position_curve self x = Inr v"
proof -
  from assms have "\<exists>v. float_pow (1 - x) (0.7 / aggressiveness self) = Inr v"
    by (intro float_pow_defined) simp_all
  moreover from assms have "\<exists>v. float_pow (1 - x) 0.7 = Inr v"
    by (intro float_pow_defined) simp_all
  ultimately show ?thesis
    using assms by (auto simp add: position_curve_def Let_def)
qed

lemma sizing_linear:
  assumes "nonlinear_type self = ''linear''"
  shows "nonlinear_position_sizing self 0 = Inr 1" "nonlinear_position_sizing self 100 = Inr 0"
  using assms by (simp_all add: nonlinear_position_sizing_def position_curve_def np_clip_def)

lemma sizing_custom:
  assumes "nonlinear_type self = ''custom''"
  shows "nonlinear_position_sizing self 0 = Inr 1"
    "nonlinear_position_sizing self 50 = Inr (1 / 2)"
    "nonlinear_position_sizing self 100 = Inr 0"
  using assms
  by (simp_all add: nonlinear_position_sizing_def position_curve_def np_clip_def
        np_interp_def points_x_def points_y_def)

text \<open>
  C7. For a percentile in \<open>[0, 100]\<close>, any curve type (the four named ones and any
  other string) and an aggressiveness above 0, \<open>nonlinear_position_sizing\<close> returns a
  value in \<open>[0, 1]\<close>; the linear curve gives 1 at 0 and 0 at 100, the custom curve 1 at 0,
  0.5 at 50 and 0 at 100.
\<close>

theorem position_sizing_in_unit_interval:
  assumes "0 \<le> p" "p \<le> 100" "0 < aggressiveness self"
  shows "(\<exists>v. nonlinear_position_sizing self p = Inr v \<and> 0 \<le> v \<and> v \<le> 1)
       \<and> (nonlinear_type self = ''linear'' \<longrightarrow>
            nonlinear_position_sizing self 0 = Inr 1
            \<and> nonlinear_position_sizing self 100 = Inr 0)
       \<and> (nonlinear_type self = ''custom'' \<longrightarrow>
            nonlinear_position_sizing self 0 = Inr 1
            \<and> nonlinear_position_sizing self 50 = Inr (1 / 2)
            \<and> nonlinear_position_sizing self 100 = Inr 0)"
proof -
  from assms have "p / 100 \<le> 1" by simp
  with assms obtain v where "position_curve self (p / 100) = Inr v"
    using position_curve_defined by blast
  then have "\<exists>v. nonlinear_position_sizing self p = Inr v \<and> 0 \<le> v \<and> v \<le> 1"
    by (simp add: nonlinear_position_sizing_def np_clip_unit)
  then show ?thesis
    using sizing_linear [of self] sizing_custom [of self] by blast
qed

text \<open>The sample configuration at percentile 20, and its linear and custom variants.\<close>

theorem position_sizing_in_unit_interval_witness:
  "(\<exists>v. nonlinear_position_sizing sample_strategy 20 = Inr v \<and> 0 \<le> v \<and> v \<le> 1)
   \<and> nonlinear_position_sizing (sample_strategy\<lparr>nonlinear_type := ''linear''\<rparr>) 0 = Inr 1
   \<and> nonlinear_position_sizing (sample_strategy\<lparr>nonlinear_type := ''linear''\<rparr>) 100 = Inr 0
   \<and> nonlinear_position_sizing (sample_strategy\<lparr>nonlinear_type := ''custom''\<rparr>) 0 = Inr 1
   \<and> nonlinear_position_sizing (sample_strategy\<lparr>nonlinear_type := ''custom''\<rparr>) 50 = Inr (1 / 2)
   \<and> nonlinear_position_sizing (sample_strategy\<lparr>nonlinear_type := ''custom''\<rparr>) 100 = Inr 0"
proof -
  have a: "0 < aggressiveness sample_strategy"
    "0 < aggressiveness (sample_strategy\<lparr>nonlinear_type := ''linear''\<rparr>)"
    "0 < aggressiveness (sample_strategy\<lparr>nonlinear_type := ''custom''\<rparr>)"
    by (simp_all add: sample_strategy_def)
  have r: "(0::real) \<le> 20" "(20::real) \<le> 100" by simp_all
  have l: "nonlinear_type (sample_strategy\<lparr>nonlinear_type := ''linear''\<rparr>) = ''linear''"
    and c: "nonlinear_type (sample_strategy\<lparr>nonlinear_type := ''custom''\<rparr>) = ''custom''"
    by simp_all
  from position_sizing_in_unit_interval [OF r a(1)]
    position_sizing_in_unit_interval [OF r a(2)]
    position_sizing_in_unit_interval [OF r a(3)] l c
  show ?thesis by blast
qed






section \<open>The composite screener\<close>

text \<open>The screener on the sample frames: index 801010 alone survives.\<close>

lemma sample_screening:
  "select_best_sw_lv2_indices_by_valuation sample_current sample_monthly sample_indices
   = [\<lparr> code = 801010, index_name = ''A'', current_pe = 10, current_pe_percentile = 1 / 10,
        current_price_percentile = 0, safety_score = 1, trading_activity = 1,
        price_resilience = 3 / 2, comprehensive_score = 150 \<rparr>]"
  by code_simp









text \<open>
  C2. The claim: the resilience coefficient lies in \<open>[0, 1]\<close> and the composite score in
  \<open>[0, 100]\<close>. For a change below the average but above 0 the second branch returns
  \<open>max(0, (change + 10) / 10)\<close>, which is above 1: a change of +5 under an average of 8
  gives 1.5, and on the sample frames the screener returns index 801010 with resilience
  1.5 and composite score 150.
\<close>

theorem resilience_above_one:
  "calculate_price_resilience_coefficient 801010 [sample_row 801010 5 119] (Some 8) = 3 / 2
   \<and> map price_resilience
        (select_best_sw_lv2_indices_by_valuation sample_current sample_monthly sample_indices)
       = [3 / 2]
   \<and> map comprehensive_score
        (select_best_sw_lv2_indices_by_valuation sample_current sample_monthly sample_indices)
       = [150]"
proof -
  have "calculate_price_resilience_coefficient 801010 [sample_row 801010 5 119] (Some 8) = 3 / 2"
    by (simp add: calculate_price_resilience_coefficient_def rows_of_def sample_row_def
          sort_values_desc_def ge_nan_def)
  then show ?thesis
    by (simp add: sample_screening)
qed

end
